theory Spec2Isabelle
  imports Main "HOL-Library.Sublist"
begin

section \<open>The OAuth2 authentication manager (src/auth/AuthManager.ts)\<close>

text \<open>
  A shallow embedding of class \<open>AuthManager\<close>. The asynchronous methods are modelled in
  explicit state-passing style: every method takes the \<open>world\<close> (the manager's fields, the
  persisted credential record, the temporary URL file and a trace of the external effects
  performed so far) and returns its result together with the new world. A rejected
  promise or a thrown exception is the left injection of a sum.

  Everything the code obtains from outside (the clock, the refresh endpoint, the
  environment variables, the random CSRF token, the requests that reach the loopback
  listener, and the library functions \<open>URL\<close>, \<open>Buffer.from\<close>, \<open>JSON.parse\<close>,
  \<open>generateAuthUrl\<close>) is read from a record \<open>env\<close>, so that theorems quantify over all of it.
\<close>

subsection \<open>Credentials (Auth.Credentials of google-auth-library)\<close>

text \<open>
  Every field is optional in the source. \<open>None\<close> stands for an absent, \<open>undefined\<close> or
  \<open>null\<close> property; for \<open>expiry_date\<close> it also stands for \<open>NaN\<close>. The code only ever tests
  these fields for truthiness, and all four values are falsy.
\<close>

record credentials =
  access_token :: "string option"
  refresh_token :: "string option"
  scope :: "string option"
  token_type :: "string option"
  id_token :: "string option"
  expiry_date :: "int option"

definition empty_credentials :: credentials where
  "empty_credentials =
     \<lparr>access_token = None, refresh_token = None, scope = None, token_type = None,
      id_token = None, expiry_date = None\<rparr>"

text \<open>JavaScript truthiness of a string-valued property: present and not the empty string.\<close>

definition truthy :: "string option \<Rightarrow> bool" where
  "truthy v = (case v of None \<Rightarrow> False | Some s \<Rightarrow> \<not> (s = []))"

text \<open>\<open>v || undefined\<close> and \<open>v || null\<close> for a string-valued \<open>v\<close>.\<close>

definition or_undefined :: "string option \<Rightarrow> string option" where
  "or_undefined v = (if truthy v then v else None)"

subsection \<open>Errors\<close>

datatype error =
    NoRefreshToken
  | RefreshFailed nat string
  | NetworkError string
  | JsonError string
  | StorageError string
  | InvalidPort string
  | PortProbeError string
  | UnexpectedRequest "string option"
  | InvalidUrl
  | CsrfMismatch
  | OAuthError string string
  | MissingTokens
  | ServerError string
  | Timeout string

subsection \<open>Small library functions of the language\<close>

text \<open>Decimal rendering of a number, as a template literal does it.\<close>

definition digit_char :: "nat \<Rightarrow> char" where
  "digit_char d = char_of (48 + d)"

fun string_of_nat :: "nat \<Rightarrow> string" where
  "string_of_nat n =
     (if n < 10 then [digit_char n] else string_of_nat (n div 10) @ [digit_char (n mod 10)])"

text \<open>
  \<open>parseInt(s, 10)\<close>: leading white space is skipped, then an optional sign, then the longest
  run of decimal digits; no digit at all gives \<open>NaN\<close> (here \<open>None\<close>). Only the ASCII white
  space characters are recognised, and the value is exact (the source rounds beyond
  \<open>2^53\<close>).
\<close>

definition is_space :: "char \<Rightarrow> bool" where
  "is_space c = (of_char c \<in> {9::nat, 10, 11, 12, 13, 32})"

definition is_digit :: "char \<Rightarrow> bool" where
  "is_digit c = (48 \<le> (of_char c :: nat) \<and> (of_char c :: nat) \<le> 57)"

definition digits_value :: "string \<Rightarrow> int" where
  "digits_value ds = foldl (\<lambda>a c. 10 * a + (int (of_char c) - 48)) 0 ds"

definition parseInt :: "string \<Rightarrow> int option" where
  "parseInt s =
     (let t = dropWhile is_space s;
          neg = (case t of [] \<Rightarrow> False | c # _ \<Rightarrow> c = CHR ''-'');
          u = (case t of [] \<Rightarrow> [] | c # r \<Rightarrow> if c = CHR ''-'' \<or> c = CHR ''+'' then r else t);
          ds = takeWhile is_digit u
      in if ds = [] then None
         else Some (if neg then - digits_value ds else digits_value ds))"

text \<open>\<open>s.split(d)\<close> for a one-character separator: never the empty list.\<close>

fun split_on :: "char \<Rightarrow> string \<Rightarrow> string list" where
  "split_on d [] = [[]]"
| "split_on d (c # cs) =
     (if c = d then [] # split_on d cs
      else (case split_on d cs of [] \<Rightarrow> [[c]] | x # xs \<Rightarrow> (c # x) # xs))"

text \<open>\<open>URLSearchParams.get\<close>: the first value stored under the name, or \<open>null\<close>.\<close>

definition qs_get :: "(string \<times> string) list \<Rightarrow> string \<Rightarrow> string option" where
  "qs_get qs name = map_of qs name"

text \<open>
  A parsed JSON value. \<open>JObj\<close> carries the own properties of the object that \<open>JSON.parse\<close>
  built. A number keeps its literal: nothing below computes with it.
\<close>

datatype json =
    JNull
  | JBool bool
  | JNum string
  | JStr string
  | JArr "json list"
  | JObj "(string \<times> json) list"

text \<open>
  \<open>decoded.csrf === csrfToken\<close>. Reading a property of \<open>null\<close> throws (the result is
  \<open>None\<close>); a property that a value does not have is \<open>undefined\<close>, which is not strictly equal
  to a string.
\<close>

definition csrf_field_equals :: "json \<Rightarrow> string \<Rightarrow> bool option" where
  "csrf_field_equals decoded csrfToken =
     (case decoded of
        JNull \<Rightarrow> None
      | JObj props \<Rightarrow> Some (map_of props ''csrf'' = Some (JStr csrfToken))
      | _ \<Rightarrow> Some False)"

subsection \<open>The outside world\<close>

text \<open>The answer of \<open>fetch\<close>: the promise rejects, or a response arrives.\<close>

record response =
  status :: nat
  body_text :: string
  body_json :: "credentials option"

datatype fetch_result = NetworkFailure string | Reply response

text \<open>\<open>response.ok\<close>\<close>

definition ok :: "response \<Rightarrow> bool" where
  "ok r = (200 \<le> status r \<and> status r \<le> 299)"

text \<open>
  \<open>body_json\<close> is what \<open>response.json()\<close> resolves to, read as credentials (\<open>None\<close> when the
  body is not JSON and the call rejects).
\<close>

record state_payload =
  uri :: "string option"
  manual :: bool
  csrf :: string

text \<open>An inbound HTTP request is its \<open>req.url\<close>, which the type allows to be undefined.\<close>

type_synonym request = "string option"

text \<open>
  Oracles that answer at different moments of a call are indexed by the number of effects
  recorded in the trace at the moment they are asked.
\<close>

record env =
  date_now :: "nat \<Rightarrow> int"
  endpoint :: "nat \<Rightarrow> string \<Rightarrow> fetch_result"
  save_fails :: "nat \<Rightarrow> string option"
  tmp_writable :: bool
  OAUTH_CALLBACK_PORT :: "string option"
  OAUTH_CALLBACK_HOST :: "string option"
  os_port :: "string + nat"
  shouldLaunchBrowser :: bool
  randomBytes_hex :: string
  encode_state :: "state_payload \<Rightarrow> string"
  generateAuthUrl :: "string list \<Rightarrow> string \<Rightarrow> string"
  listen_error :: "string option"
  inbound :: "request list"
  searchParams :: "string \<Rightarrow> string \<Rightarrow> (string \<times> string) list option"
  decode_state :: "string \<Rightarrow> json option"

text \<open>
  \<^item> \<open>date_now\<close>: \<open>Date.now()\<close>;
  \<^item> \<open>endpoint n t\<close>: the answer to the POST of refresh token \<open>t\<close> to
    \<open>CLOUD_FUNCTION_URL/refreshToken\<close>;
  \<^item> \<open>save_fails\<close>: the I/O error of a save to the credential store, if any;
  \<^item> \<open>tmp_writable\<close>: whether \<open>fs.writeFileSync(AUTH_URL_FILE, ...)\<close> succeeds;
  \<^item> \<open>os_port\<close>: the outcome of the bind/listen/close probe for a free port;
  \<^item> \<open>randomBytes_hex\<close>: \<open>crypto.randomBytes(32).toString('hex')\<close>;
  \<^item> \<open>encode_state\<close>: \<open>Buffer.from(JSON.stringify(payload)).toString('base64')\<close>;
  \<^item> \<open>listen_error\<close>: the \<open>'error'\<close> event of the callback server, if it cannot listen;
  \<^item> \<open>inbound\<close>: the requests on which \<open>node:http\<close> runs the handler of the callback server,
    in order, while the call waits in \<open>Promise.race\<close> (a request handled earlier, while
    \<open>await open\<close> is still pending, is not modelled: a signal rejected then is reported by
    Node as an unhandled rejection);
  \<^item> \<open>searchParams u b\<close>: \<open>new url.URL(u, b).searchParams\<close> (\<open>None\<close> when the constructor
    throws);
  \<^item> \<open>decode_state s\<close>: \<open>JSON.parse(Buffer.from(s, 'base64').toString())\<close> (\<open>None\<close> when it
    throws).
\<close>

datatype event =
    StoreLoad
  | StoreSave credentials
  | StoreSaveFailed credentials
  | StoreClear
  | Fetch string
  | AuthWithWeb
  | WriteUrlFile string
  | OpenBrowser string
  | StatusUpdate string
  | UnlinkUrlFile

record world =
  client :: "credentials option"
  scopes :: "string list"
  onStatusUpdate :: bool
  store :: "credentials option"
  url_file :: "string option"
  trace :: "event list"

text \<open>
  \<open>client\<close> is \<open>this.client\<close> (\<open>None\<close> for \<open>null\<close>), given by the credentials the client object
  holds; \<open>onStatusUpdate\<close> says whether an observer is registered; \<open>store\<close> is the persisted
  record and \<open>url_file\<close> the content of \<open>/tmp/auth_url.txt\<close>.
\<close>

definition log_event :: "event \<Rightarrow> world \<Rightarrow> world" where
  "log_event e w = w\<lparr>trace := trace w @ [e]\<rparr>"

definition TOKEN_EXPIRY_BUFFER_MS :: int where
  "TOKEN_EXPIRY_BUFFER_MS = 5 * 60 * 1000"

definition setOnStatusUpdate :: "world \<Rightarrow> world" where
  "setOnStatusUpdate w = w\<lparr>onStatusUpdate := True\<rparr>"

definition isTokenExpiringSoon :: "int \<Rightarrow> credentials \<Rightarrow> bool" where
  "isTokenExpiringSoon now credentials =
     (case expiry_date credentials of
        None \<Rightarrow> False
      | Some e \<Rightarrow> \<not> (e = 0) \<and> e < now + TOKEN_EXPIRY_BUFFER_MS)"

subsection \<open>The credential store\<close>

text \<open>
  Modelled from the spec: \<open>OAuthCredentialStorage\<close>
  (\<open>./token-storage/oauth-credential-storage\<close>) is not among the sources. The spec gives its
  contract: \<open>load() \<rightarrow> Credential|absent\<close>, \<open>save(Credential) \<rightarrow> void, fails on I/O error\<close>,
  \<open>clear() \<rightarrow> void, idempotent\<close>.
\<close>

definition loadCredentials :: "world \<Rightarrow> credentials option \<times> world" where
  "loadCredentials w = (store w, log_event StoreLoad w)"

definition saveCredentials :: "env \<Rightarrow> credentials \<Rightarrow> world \<Rightarrow> (error + unit) \<times> world" where
  "saveCredentials env c w =
     (case save_fails env (length (trace w)) of
        Some m \<Rightarrow> (Inl (StorageError m), log_event (StoreSaveFailed c) w)
      | None \<Rightarrow> (Inr (), log_event (StoreSave c) (w\<lparr>store := Some c\<rparr>)))"

definition clearCredentials :: "world \<Rightarrow> world" where
  "clearCredentials w = log_event StoreClear (w\<lparr>store := None\<rparr>)"

subsection \<open>refreshToken, with a client at hand\<close>

text \<open>
  The \<open>try\<close> block of \<open>refreshToken\<close> (lines 213 to 246), entered with \<open>this.client\<close> set and
  holding the credentials \<open>cur\<close>. \<open>getAuthenticatedClient\<close> calls \<open>refreshToken\<close> only at
  places where \<open>this.client\<close> is set (lines 82 and 130), so that those calls are calls of
  this function.
\<close>

definition refresh_body :: "env \<Rightarrow> credentials \<Rightarrow> world \<Rightarrow> (error + unit) \<times> world" where
  "refresh_body env cur w =
     (case refresh_token cur of
        None \<Rightarrow> (Inl NoRefreshToken, w)
      | Some rt \<Rightarrow>
          if rt = [] then (Inl NoRefreshToken, w)
          else
            (let w1 = log_event (Fetch rt) w in
             case endpoint env (length (trace w)) rt of
               NetworkFailure m \<Rightarrow> (Inl (NetworkError m), w1)
             | Reply r \<Rightarrow>
                 if ok r then
                   (case body_json r of
                      None \<Rightarrow> (Inl (JsonError (body_text r)), w1)
                    | Some newTokens \<Rightarrow>
                        (let mergedCredentials = newTokens\<lparr>refresh_token := refresh_token cur\<rparr>
                         in saveCredentials env mergedCredentials
                              (w1\<lparr>client := Some mergedCredentials\<rparr>)))
                 else (Inl (RefreshFailed (status r) (body_text r)), w1)))"

subsection \<open>The callback listener (authWithWeb, lines 297 to 356)\<close>

text \<open>
  The state of one listener: whether the HTTP server is still open, the state of
  \<open>loginCompletePromise\<close> (\<open>None\<close> while pending), the credentials of the client object
  that \<open>authWithWeb\<close> was given, the variables its closure captured, the number of times
  the request handler ran, and the bodies passed to \<open>res.end\<close>.
\<close>

datatype settled = Resolved | Rejected error

record listener =
  listening :: bool
  signal :: "settled option"
  oauth :: credentials
  csrfToken :: string
  base_url :: string
  served :: nat
  replies :: "string list"

text \<open>\<open>resolve\<close> and \<open>reject\<close> of a promise: only the first call has an effect.\<close>

definition settle :: "settled \<Rightarrow> listener \<Rightarrow> listener" where
  "settle s L = (case signal L of None \<Rightarrow> L\<lparr>signal := Some s\<rparr> | Some _ \<Rightarrow> L)"

definition res_end :: "string \<Rightarrow> listener \<Rightarrow> listener" where
  "res_end body L = L\<lparr>replies := replies L @ [body]\<rparr>"

text \<open>Lines 309 to 316: the raw token, or the base64 JSON wrapper with its \<open>csrf\<close> field.\<close>

definition csrf_valid :: "env \<Rightarrow> string \<Rightarrow> string option \<Rightarrow> bool" where
  "csrf_valid env token returnedState =
     (if returnedState = Some token then True
      else
        (case returnedState of
           None \<Rightarrow> False
         | Some s \<Rightarrow>
             if s = [] then False
             else
               (case decode_state env s of
                  None \<Rightarrow> False
                | Some decoded \<Rightarrow>
                    (case csrf_field_equals decoded token of
                       None \<Rightarrow> False
                     | Some b \<Rightarrow> b))))"

text \<open>Lines 329 to 346, once the state is accepted and no provider error is reported.\<close>

definition adopt_tokens :: "(string \<times> string) list \<Rightarrow> listener \<Rightarrow> listener" where
  "adopt_tokens qs L =
     (case qs_get qs ''access_token'' of
        None \<Rightarrow> settle (Rejected MissingTokens) L
      | Some at \<Rightarrow>
          (case qs_get qs ''expiry_date'' of
             None \<Rightarrow> settle (Rejected MissingTokens) L
           | Some expiry_date_str \<Rightarrow>
               if at = [] \<or> expiry_date_str = [] then settle (Rejected MissingTokens) L
               else
                 (let tokens =
                        \<lparr>access_token = Some at,
                         refresh_token = or_undefined (qs_get qs ''refresh_token''),
                         scope = or_undefined (qs_get qs ''scope''),
                         token_type = or_undefined (qs_get qs ''token_type''),
                         id_token = None,
                         expiry_date = parseInt expiry_date_str\<rparr>
                  in settle Resolved
                       (res_end ''Authentication successful! Please return to the console.''
                          (L\<lparr>oauth := tokens\<rparr>)))))"

text \<open>The \<open>try\<close> and \<open>catch\<close> blocks of the request handler.\<close>

definition handle_request :: "env \<Rightarrow> request \<Rightarrow> listener \<Rightarrow> listener" where
  "handle_request env req L =
     (case req of
        None \<Rightarrow> settle (Rejected (UnexpectedRequest None)) (res_end [] L)
      | Some u \<Rightarrow>
          if prefix ''/oauth2callback'' u then
            (case searchParams env u (base_url L) of
               None \<Rightarrow> settle (Rejected InvalidUrl) L
             | Some qs \<Rightarrow>
                 if csrf_valid env (csrfToken L) (qs_get qs ''state'') then
                   (case or_undefined (qs_get qs ''error'') of
                      Some err \<Rightarrow>
                        settle
                          (Rejected
                             (OAuthError err
                                (case or_undefined (qs_get qs ''error_description'') of
                                   None \<Rightarrow> []
                                 | Some d \<Rightarrow> d)))
                          (res_end [] L)
                    | None \<Rightarrow> adopt_tokens qs L)
                 else
                   settle (Rejected CsrfMismatch)
                     (res_end ''State mismatch. Possible CSRF attack.'' L))
          else settle (Rejected (UnexpectedRequest (Some u))) (res_end [] L))"

text \<open>The whole handler: the \<open>finally\<close> block closes the server on every path.\<close>

definition requestListener :: "env \<Rightarrow> request \<Rightarrow> listener \<Rightarrow> listener" where
  "requestListener env req L = (handle_request env req L)\<lparr>listening := False\<rparr>"

text \<open>
  One request reaching the handler: the handler itself has no check that it has run
  before. \<open>server.close()\<close> stops the server from accepting new connections only, so that a
  later request on a connection kept alive, or pipelined, from before the close still
  runs the handler. Which requests do reach it is for the environment to say.
\<close>

definition dispatch :: "env \<Rightarrow> request \<Rightarrow> listener \<Rightarrow> listener" where
  "dispatch env req L = requestListener env req (L\<lparr>served := Suc (served L)\<rparr>)"

definition serve :: "env \<Rightarrow> request list \<Rightarrow> listener \<Rightarrow> listener" where
  "serve env reqs L = fold (dispatch env) reqs L"

subsection \<open>authWithWeb\<close>

definition getAvailablePort :: "env \<Rightarrow> error + nat" where
  "getAvailablePort env =
     (case or_undefined (OAUTH_CALLBACK_PORT env) of
        Some portStr \<Rightarrow>
          (case parseInt portStr of
             None \<Rightarrow> Inl (InvalidPort portStr)
           | Some p \<Rightarrow>
               if p \<le> 0 \<or> 65535 < p then Inl (InvalidPort portStr) else Inr (nat p))
      | None \<Rightarrow>
          (case os_port env of Inl m \<Rightarrow> Inl (PortProbeError m) | Inr p \<Rightarrow> Inr p))"

definition callback_host :: "env \<Rightarrow> string" where
  "callback_host env =
     (case or_undefined (OAUTH_CALLBACK_HOST env) of None \<Rightarrow> ''localhost'' | Some h \<Rightarrow> h)"

definition auth_url :: "env \<Rightarrow> string list \<Rightarrow> nat \<Rightarrow> string" where
  "auth_url env requested p =
     (let host = callback_host env;
          localRedirectUri = ''http://'' @ host @ '':'' @ string_of_nat p @ ''/oauth2callback'';
          isGuiAvailable = shouldLaunchBrowser env;
          statePayload =
            \<lparr>uri = (if isGuiAvailable then Some localRedirectUri else None),
             manual = \<not> isGuiAvailable,
             csrf = randomBytes_hex env\<rparr>
      in generateAuthUrl env requested (encode_state env statePayload))"

text \<open>The listener as \<open>authWithWeb\<close> leaves it: listening, unless the server reports an error.\<close>

definition new_listener :: "env \<Rightarrow> nat \<Rightarrow> credentials \<Rightarrow> listener" where
  "new_listener env p creds =
     (let L = \<lparr>listening = True, signal = None, oauth = creds,
               csrfToken = randomBytes_hex env,
               base_url = ''http://'' @ callback_host env @ '':'' @ string_of_nat p,
               served = 0, replies = []\<rparr>
      in case listen_error env of
           None \<Rightarrow> L
         | Some m \<Rightarrow> settle (Rejected (ServerError m)) (L\<lparr>listening := False\<rparr>))"

definition authWithWeb ::
  "env \<Rightarrow> credentials \<Rightarrow> world \<Rightarrow> (error + string \<times> listener) \<times> world" where
  "authWithWeb env creds w =
     (let w1 = log_event AuthWithWeb w in
      case getAvailablePort env of
        Inl e \<Rightarrow> (Inl e, w1)
      | Inr p \<Rightarrow> (Inr (auth_url env (scopes w) p, new_listener env p creds), w1))"

subsection \<open>getAuthenticatedClient\<close>

text \<open>
  \<open>loadCachedCredentials\<close>: the first argument is what the fresh client object holds, the
  result says whether the stored credentials were accepted and what the client holds
  afterwards.
\<close>

definition loadCachedCredentials ::
  "credentials \<Rightarrow> world \<Rightarrow> (bool \<times> credentials) \<times> world" where
  "loadCachedCredentials creds w =
     (case loadCredentials w of
        (None, w1) \<Rightarrow> ((False, creds), w1)
      | (Some credentials, w1) \<Rightarrow>
          (let savedScopes =
                 (case scope credentials of None \<Rightarrow> [] | Some s \<Rightarrow> split_on CHR '' '' s);
               missingScopes = filter (\<lambda>sc. sc \<notin> set savedScopes) (scopes w)
           in if 0 < length missingScopes then ((False, creds), clearCredentials w1)
              else ((True, credentials), w1)))"

text \<open>
  The proactive refresh of lines 90 to 100 and of lines 133 to 143, on a client that holds
  \<open>c\<close>: the result is \<open>this.client\<close> afterwards, with the credentials the client object holds.
\<close>

definition refresh_if_expiring ::
  "env \<Rightarrow> credentials \<Rightarrow> world \<Rightarrow> (credentials option \<times> credentials) \<times> world" where
  "refresh_if_expiring env c w =
     (if isTokenExpiringSoon (date_now env (length (trace w))) c then
        (case refresh_body env c w of
           (Inl e, w1) \<Rightarrow>
             ((None, (case client w1 of None \<Rightarrow> c | Some c1 \<Rightarrow> c1)),
              clearCredentials (w1\<lparr>client := None\<rparr>))
         | (Inr u, w1) \<Rightarrow> ((client w1, (case client w1 of None \<Rightarrow> c | Some c1 \<Rightarrow> c1)), w1))
      else ((Some c, c), w))"

text \<open>Lines 81 to 105: the in-memory client.\<close>

definition cached_phase :: "env \<Rightarrow> world \<Rightarrow> credentials option \<times> world" where
  "cached_phase env w =
     (case client w of
        None \<Rightarrow> (None, w)
      | Some c \<Rightarrow>
          if truthy (refresh_token c) then
            (case refresh_if_expiring env c w of ((r, held), w1) \<Rightarrow> (r, w1))
          else (None, w))"

text \<open>
  Lines 107 to 148: a fresh client object, the persisted record. The second component is
  what the fresh client object holds when the phase ends without returning.
\<close>

definition stored_phase :: "env \<Rightarrow> world \<Rightarrow> (credentials option \<times> credentials) \<times> world" where
  "stored_phase env w =
     (case loadCachedCredentials empty_credentials w of
        ((True, creds), w1) \<Rightarrow> refresh_if_expiring env creds (w1\<lparr>client := Some creds\<rparr>)
      | ((False, creds), w1) \<Rightarrow> ((None, creds), w1))"

definition timeout_message :: "string \<Rightarrow> string" where
  "timeout_message authUrl =
     ''Authentication timed out after 5 minutes. Open this URL in your browser: '' @ authUrl"

definition waiting_message :: string where
  "waiting_message =
     ''Waiting for authentication... Check your browser or open the URL above.''"

text \<open>
  Lines 152 to 177: the URL is written to the temporary file, printed, handed to the
  browser launcher and announced to the observer. A failed write and a failed launch are
  caught in the source and change nothing else.
\<close>

definition surface_url :: "env \<Rightarrow> string \<Rightarrow> world \<Rightarrow> world" where
  "surface_url env authUrl w1 =
     (let w2 = (if tmp_writable env
                then log_event (WriteUrlFile authUrl)
                       (w1\<lparr>url_file := Some (authUrl @ [CHR 0x0A])\<rparr>)
                else w1);
          w3 = log_event (OpenBrowser authUrl) w2
      in if onStatusUpdate w3 then log_event (StatusUpdate waiting_message) w3 else w3)"

text \<open>
  Lines 150 to 196: the interactive flow on the client object holding \<open>creds\<close>.
  \<open>Promise.race\<close> is decided by the listener after the requests handled while the call
  waits: a pending signal means the timer wins.
\<close>

definition interactive_flow ::
  "env \<Rightarrow> credentials \<Rightarrow> world \<Rightarrow> (error + credentials) \<times> world" where
  "interactive_flow env creds w =
     (case authWithWeb env creds w of
        (Inl e, w1) \<Rightarrow> (Inl e, w1)
      | (Inr (authUrl, L0), w1) \<Rightarrow>
          (let w4 = surface_url env authUrl w1;
               L = serve env (inbound env) L0
           in case signal L of
                None \<Rightarrow> (Inl (Timeout (timeout_message authUrl)), w4)
              | Some (Rejected e) \<Rightarrow> (Inl e, w4)
              | Some Resolved \<Rightarrow>
                  (case saveCredentials env (oauth L) w4 of
                     (Inl e, w5) \<Rightarrow> (Inl e, w5)
                   | (Inr u, w5) \<Rightarrow> (Inr (oauth L), w5\<lparr>client := Some (oauth L)\<rparr>))))"

text \<open>
  The handler of the \<open>'tokens'\<close> event, registered on the fresh client object at lines 112
  to 125. It runs when the library itself refreshes a token during a later API call; no
  method of the manager triggers it. It merges the new tokens into the persisted record,
  with \<open>tokens.refresh_token || current.refresh_token\<close>, and swallows every error.
\<close>

definition on_tokens :: "env \<Rightarrow> credentials \<Rightarrow> world \<Rightarrow> world" where
  "on_tokens env tokens w =
     (case loadCredentials w of
        (current, w1) \<Rightarrow>
          (let merged =
                 tokens\<lparr>refresh_token :=
                   (if truthy (refresh_token tokens) then refresh_token tokens
                    else (case current of None \<Rightarrow> None | Some cur \<Rightarrow> refresh_token cur))\<rparr>
           in snd (saveCredentials env merged w1)))"

text \<open>The whole method.\<close>

definition getAuthenticatedClient :: "env \<Rightarrow> world \<Rightarrow> (error + credentials) \<times> world" where
  "getAuthenticatedClient env w =
     (case cached_phase env w of
        (Some c, w1) \<Rightarrow> (Inr c, w1)
      | (None, w1) \<Rightarrow>
          (case stored_phase env w1 of
             ((Some c, held), w2) \<Rightarrow> (Inr c, w2)
           | ((None, held), w2) \<Rightarrow> interactive_flow env held w2))"

subsection \<open>refreshToken and clearAuth\<close>

definition refreshToken :: "env \<Rightarrow> world \<Rightarrow> (error + unit) \<times> world" where
  "refreshToken env w =
     (case client w of
        None \<Rightarrow>
          (case getAuthenticatedClient env w of
             (Inl e, w1) \<Rightarrow> (Inl e, w1)
           | (Inr c, w1) \<Rightarrow> refresh_body env c (w1\<lparr>client := Some c\<rparr>))
      | Some c \<Rightarrow> refresh_body env c w)"

text \<open>
  \<open>clearAuth\<close>: the store's \<open>clear\<close> cannot fail by its contract, and the error of
  \<open>fs.unlinkSync\<close> on a missing file is swallowed.
\<close>

definition clearAuth :: "world \<Rightarrow> (error + unit) \<times> world" where
  "clearAuth w =
     (let w1 = clearCredentials (w\<lparr>client := None\<rparr>);
          w2 = log_event UnlinkUrlFile (w1\<lparr>url_file := None\<rparr>)
      in (Inr (), w2))"

text \<open>The message of each error the source constructs; a foreign error keeps its own text.\<close>

definition error_message :: "error \<Rightarrow> string" where
  "error_message e =
     (case e of
        NoRefreshToken \<Rightarrow> ''No refresh token available''
      | RefreshFailed st body \<Rightarrow>
          ''Token refresh failed: '' @ string_of_nat st @ '' '' @ body
      | NetworkError m \<Rightarrow> m
      | JsonError m \<Rightarrow> m
      | StorageError m \<Rightarrow> m
      | InvalidPort portStr \<Rightarrow>
          ''Invalid value for OAUTH_CALLBACK_PORT: '' @ [CHR 0x22] @ portStr @ [CHR 0x22]
      | PortProbeError m \<Rightarrow> m
      | UnexpectedRequest u \<Rightarrow>
          ''OAuth callback not received. Unexpected request: '' @
            (case u of None \<Rightarrow> ''undefined'' | Some s \<Rightarrow> s)
      | InvalidUrl \<Rightarrow> ''Invalid URL''
      | CsrfMismatch \<Rightarrow> ''OAuth state mismatch. Possible CSRF attack.''
      | OAuthError err d \<Rightarrow> ''Google OAuth error: '' @ err @ ''. '' @ d
      | MissingTokens \<Rightarrow> ''Authentication failed: Did not receive tokens from callback.''
      | ServerError m \<Rightarrow> ''OAuth callback server error: '' @ m
      | Timeout m \<Rightarrow> m)"

subsection \<open>Notions of the specification\<close>

text \<open>
  The state parameter carries the token \<open>T\<close>, in the words of the specification: it equals
  \<open>T\<close>, or it base64-decodes to a JSON object whose \<open>csrf\<close> field equals \<open>T\<close>.
\<close>

definition state_carries_csrf :: "env \<Rightarrow> string \<Rightarrow> string option \<Rightarrow> bool" where
  "state_carries_csrf env T st =
     (case st of
        None \<Rightarrow> False
      | Some s \<Rightarrow>
          s = T \<or>
          (case decode_state env s of
             Some (JObj props) \<Rightarrow> map_of props ''csrf'' = Some (JStr T)
           | _ \<Rightarrow> False))"

text \<open>The granted scope set: the space-split scope string, empty when absent.\<close>

definition granted_scopes :: "credentials \<Rightarrow> string set" where
  "granted_scopes c = (case scope c of None \<Rightarrow> {} | Some s \<Rightarrow> set (split_on CHR '' '' s))"

text \<open>The effects that write or clear the persisted record, or try to.\<close>

definition store_event :: "event \<Rightarrow> bool" where
  "store_event ev =
     (case ev of
        StoreSave c \<Rightarrow> True
      | StoreSaveFailed c \<Rightarrow> True
      | StoreClear \<Rightarrow> True
      | _ \<Rightarrow> False)"

definition storage_error :: "error \<Rightarrow> bool" where
  "storage_error e = (case e of StorageError m \<Rightarrow> True | _ \<Rightarrow> False)"

definition fetch_event :: "event \<Rightarrow> bool" where
  "fetch_event ev = (case ev of Fetch t \<Rightarrow> True | _ \<Rightarrow> False)"

subsection \<open>Sample inputs\<close>

text \<open>
  A concrete environment: the clock stands at 1000000 ms, the refresh endpoint answers 200
  with a new access token and a rotated refresh token, the store accepts every save, the
  port probe yields 8080, and no request reaches the listener. The codec of the state
  parameter is a toy one (a tag in front of the token), and the query strings of three
  callback URLs are tabulated.
\<close>

definition sample_token :: string where
  "sample_token = ''5f2a9c41d07be8366a1c4f90b2e7d3585f2a9c41d07be8366a1c4f90b2e7d358''"

definition forged_url :: string where
  "forged_url =
     ''/oauth2callback?state=forged&access_token=EVIL&refresh_token=EVILRT&expiry_date=9999999''"

definition granted_url :: string where
  "granted_url =
     ''/oauth2callback?state=b64:'' @ sample_token @
     ''&access_token=AT3&refresh_token=RT3&scope=read&expiry_date=4600000''"

definition regranted_url :: string where
  "regranted_url =
     ''/oauth2callback?state=b64:'' @ sample_token @
     ''&access_token=AT4&refresh_token=RT4&scope=read&expiry_date=4700000''"

definition sample_query :: "string \<Rightarrow> (string \<times> string) list" where
  "sample_query u =
     (if u = forged_url then
        [(''state'', ''forged''), (''access_token'', ''EVIL''), (''refresh_token'', ''EVILRT''),
         (''expiry_date'', ''9999999'')]
      else if u = granted_url then
        [(''state'', ''b64:'' @ sample_token), (''access_token'', ''AT3''),
         (''refresh_token'', ''RT3''), (''scope'', ''read''), (''expiry_date'', ''4600000'')]
      else if u = regranted_url then
        [(''state'', ''b64:'' @ sample_token), (''access_token'', ''AT4''),
         (''refresh_token'', ''RT4''), (''scope'', ''read''), (''expiry_date'', ''4700000'')]
      else [])"

definition rotated_tokens :: credentials where
  "rotated_tokens =
     \<lparr>access_token = Some ''AT2'', refresh_token = Some ''RT2'', scope = None,
      token_type = Some ''Bearer'', id_token = None, expiry_date = Some 4600000\<rparr>"

definition sample_env :: env where
  "sample_env =
     \<lparr>date_now = (\<lambda>n. 1000000),
      endpoint =
        (\<lambda>n t. Reply \<lparr>status = 200, body_text = [], body_json = Some rotated_tokens\<rparr>),
      save_fails = (\<lambda>n. None),
      tmp_writable = True,
      OAUTH_CALLBACK_PORT = None,
      OAUTH_CALLBACK_HOST = None,
      os_port = Inr 8080,
      shouldLaunchBrowser = False,
      randomBytes_hex = sample_token,
      encode_state = (\<lambda>p. ''b64:'' @ csrf p),
      generateAuthUrl = (\<lambda>sc st. ''https://accounts.example/auth?state='' @ st),
      listen_error = None,
      inbound = [],
      searchParams = (\<lambda>u b. Some (sample_query u)),
      decode_state =
        (\<lambda>s. if take 4 s = ''b64:'' then Some (JObj [(''csrf'', JStr (drop 4 s))])
             else None)\<rparr>"

definition sample_credentials :: credentials where
  "sample_credentials =
     \<lparr>access_token = Some ''AT1'', refresh_token = Some ''RT1'', scope = Some ''read'',
      token_type = Some ''Bearer'', id_token = None, expiry_date = Some 4600000\<rparr>"

definition sample_world :: "credentials option \<Rightarrow> credentials option \<Rightarrow> world" where
  "sample_world c st =
     \<lparr>client = c, scopes = [''read''], onStatusUpdate = False, store = st, url_file = None,
      trace = []\<rparr>"

text \<open>The same environment with a refresh endpoint that answers 500.\<close>

definition failing_env :: env where
  "failing_env =
     sample_env\<lparr>endpoint :=
       (\<lambda>n t. Reply \<lparr>status = 500, body_text = ''boom'', body_json = None\<rparr>)\<rparr>"

text \<open>The same environment with the given requests reaching the handler.\<close>

definition env_with_requests :: "request list \<Rightarrow> env" where
  "env_with_requests reqs = sample_env\<lparr>inbound := reqs\<rparr>"

section \<open>Properties\<close>

subsection \<open>The sample environment, field by field\<close>

lemma sample_env_simps:
  "date_now sample_env n = 1000000"
  "endpoint sample_env n t =
     Reply \<lparr>status = 200, body_text = [], body_json = Some rotated_tokens\<rparr>"
  "save_fails sample_env n = None"
  "tmp_writable sample_env"
  "OAUTH_CALLBACK_PORT sample_env = None"
  "OAUTH_CALLBACK_HOST sample_env = None"
  "os_port sample_env = Inr 8080"
  "shouldLaunchBrowser sample_env = False"
  "randomBytes_hex sample_env = sample_token"
  "listen_error sample_env = None"
  "inbound sample_env = []"
  "searchParams sample_env u b = Some (sample_query u)"
  by (simp_all add: sample_env_def)

lemma sample_world_simps:
  "client (sample_world c st) = c"
  "store (sample_world c st) = st"
  "scopes (sample_world c st) = [''read'']"
  "trace (sample_world c st) = []"
  "onStatusUpdate (sample_world c st) = False"
  by (simp_all add: sample_world_def)

lemma sample_credentials_truthy: "truthy (refresh_token sample_credentials)"
  by (simp add: sample_credentials_def truthy_def)

subsection \<open>The listener and the flow, step by step\<close>

lemma csrf_valid_carries: "csrf_valid env T st \<Longrightarrow> state_carries_csrf env T st"
  by (auto simp: csrf_valid_def state_carries_csrf_def csrf_field_equals_def
      split: option.splits if_splits json.splits)

lemma serve_Cons: "serve env (r # rs) L = serve env rs (dispatch env r L)"
  by (simp add: serve_def)

lemma requestListener_closed: "\<not> listening (requestListener env r L)"
  by (simp add: requestListener_def)

lemma settle_signal:
  "signal (settle s L) = (case signal L of None \<Rightarrow> Some s | Some t \<Rightarrow> Some t)"
  by (simp add: settle_def split: option.splits)

lemma settle_fields:
  "oauth (settle s L) = oauth L"
  "listening (settle s L) = listening L"
  "served (settle s L) = served L"
  "replies (settle s L) = replies L"
  by (simp_all add: settle_def split: option.splits)

lemma handle_request_signal_kept:
  "signal L = Some s \<Longrightarrow> signal (handle_request env r L) = Some s"
  by (auto simp: handle_request_def adopt_tokens_def settle_signal res_end_def Let_def
      split: option.splits if_splits)

lemma handle_request_settles: "signal (handle_request env r L) \<noteq> None"
  by (auto simp: handle_request_def adopt_tokens_def settle_signal res_end_def Let_def
      split: option.splits if_splits)

lemma handle_request_served: "served (handle_request env r L) = served L"
  by (auto simp: handle_request_def adopt_tokens_def settle_fields res_end_def Let_def
      split: option.splits if_splits)

lemma dispatch_signal_kept: "signal L = Some s \<Longrightarrow> signal (dispatch env r L) = Some s"
  by (simp add: dispatch_def requestListener_def handle_request_signal_kept)

lemma serve_signal_kept: "signal L = Some s \<Longrightarrow> signal (serve env reqs L) = Some s"
  by (induction reqs arbitrary: L) (simp_all add: serve_def dispatch_signal_kept)

lemma new_listener_fresh:
  "listen_error env = None \<Longrightarrow>
     listening (new_listener env p creds) \<and> signal (new_listener env p creds) = None
     \<and> oauth (new_listener env p creds) = creds
     \<and> csrfToken (new_listener env p creds) = randomBytes_hex env
     \<and> base_url (new_listener env p creds)
         = ''http://'' @ callback_host env @ '':'' @ string_of_nat p"
  by (simp add: new_listener_def Let_def)

lemma surface_url_frame:
  "store (surface_url env u w) = store w"
  "client (surface_url env u w) = client w"
  "scopes (surface_url env u w) = scopes w"
  by (simp_all add: surface_url_def log_event_def Let_def)

lemma surface_url_trace:
  "\<exists>evs. trace (surface_url env u w) = trace w @ evs \<and> filter store_event evs = []"
  by (simp add: surface_url_def log_event_def Let_def store_event_def)

lemma surface_url_no_fetch:
  "filter fetch_event (trace (surface_url env u w)) = filter fetch_event (trace w)"
  by (simp add: surface_url_def log_event_def Let_def fetch_event_def)

lemma flow_timeout:
  assumes "getAvailablePort env = Inr p" and "listen_error env = None" and "inbound env = []"
  shows "interactive_flow env creds w =
           (Inl (Timeout (timeout_message (auth_url env (scopes w) p))),
            surface_url env (auth_url env (scopes w) p) (log_event AuthWithWeb w))"
  using assms
  by (simp add: interactive_flow_def authWithWeb_def Let_def serve_def new_listener_fresh)

lemma prefix_refresh_body: "prefix (trace w) (trace (snd (refresh_body env c w)))"
  by (auto simp: refresh_body_def saveCredentials_def log_event_def Let_def
      split: option.splits fetch_result.splits)

lemma prefix_interactive_flow:
  "prefix (trace w @ [AuthWithWeb]) (trace (snd (interactive_flow env creds w)))"
  by (auto simp: interactive_flow_def authWithWeb_def surface_url_def saveCredentials_def
      log_event_def Let_def prefix_def
      split: option.splits sum.splits settled.splits)

subsection \<open>The requested scopes are fixed\<close>

lemma refresh_body_scopes: "scopes (snd (refresh_body env c w)) = scopes w"
  by (auto simp: refresh_body_def saveCredentials_def log_event_def Let_def
      split: option.splits fetch_result.splits)

lemma refresh_if_expiring_scopes: "scopes (snd (refresh_if_expiring env c w)) = scopes w"
  using refresh_body_scopes [of env c w]
  by (auto simp: refresh_if_expiring_def clearCredentials_def log_event_def
      split: prod.splits sum.splits)

lemma cached_phase_scopes: "scopes (snd (cached_phase env w)) = scopes w"
proof (cases "client w")
  case None
  then show ?thesis by (simp add: cached_phase_def)
next
  case (Some c)
  show ?thesis
    using Some refresh_if_expiring_scopes [of env c w]
    by (auto simp: cached_phase_def split: prod.splits)
qed

lemma loadCachedCredentials_scopes: "scopes (snd (loadCachedCredentials c w)) = scopes w"
  by (auto simp: loadCachedCredentials_def loadCredentials_def clearCredentials_def
      log_event_def Let_def split: option.splits)

lemma stored_phase_scopes: "scopes (snd (stored_phase env w)) = scopes w"
proof (cases "loadCachedCredentials empty_credentials w")
  case (Pair r w1)
  obtain b creds where r: "r = (b, creds)" by (cases r)
  have s: "scopes w1 = scopes w"
    using loadCachedCredentials_scopes [of empty_credentials w] Pair by simp
  show ?thesis
    using Pair r s refresh_if_expiring_scopes [of env creds "w1\<lparr>client := Some creds\<rparr>"]
    by (cases b) (simp_all add: stored_phase_def)
qed

text \<open>
  \<open>getAuthenticatedClient\<close> either returns a credential, or it is the interactive flow from
  some later world: it has no other way to fail.
\<close>

lemma getAuthenticatedClient_cases:
  "(\<exists>c w1. getAuthenticatedClient env w = (Inr c, w1)) \<or>
   (\<exists>held w2. getAuthenticatedClient env w = interactive_flow env held w2
       \<and> scopes w2 = scopes w)"
proof (cases "cached_phase env w")
  case (Pair r w1)
  note cp = this
  show ?thesis
  proof (cases r)
    case (Some c)
    then show ?thesis using cp by (simp add: getAuthenticatedClient_def)
  next
    case None
    have s1: "scopes w1 = scopes w"
      using cached_phase_scopes [of env w] cp by simp
    obtain r2 held w2 where sp: "stored_phase env w1 = ((r2, held), w2)"
      by (metis prod.exhaust)
    have s2: "scopes w2 = scopes w"
      using stored_phase_scopes [of env w1] sp s1 by simp
    show ?thesis
      using cp None sp s2 by (cases r2) (auto simp: getAuthenticatedClient_def)
  qed
qed

lemma getAuthenticatedClient_fresh:
  "client w = None \<Longrightarrow> store w = None \<Longrightarrow>
     getAuthenticatedClient env w
       = interactive_flow env empty_credentials (log_event StoreLoad w)"
  by (simp add: getAuthenticatedClient_def cached_phase_def stored_phase_def
      loadCachedCredentials_def loadCredentials_def)

lemma missing_scopes_conv:
  "(0 < length (filter (\<lambda>sc. sc \<notin> set saved) requested)) = (\<not> set requested \<subseteq> set saved)"
  by (auto simp: filter_empty_conv)

lemma sample_port: "getAvailablePort (env_with_requests reqs) = Inr 8080"
  by (simp add: getAvailablePort_def env_with_requests_def sample_env_def or_undefined_def
      truthy_def)

lemma env_with_requests_simps:
  "listen_error (env_with_requests reqs) = None"
  "inbound (env_with_requests reqs) = reqs"
  "randomBytes_hex (env_with_requests reqs) = sample_token"
  "searchParams (env_with_requests reqs) u b = Some (sample_query u)"
  "save_fails (env_with_requests reqs) n = None"
  "tmp_writable (env_with_requests reqs)"
  by (simp_all add: env_with_requests_def sample_env_def)

subsection \<open>The cached client\<close>

text \<open>
  C3. A cached credential that carries a refresh token and expires more than five minutes
  after the current time is returned as it is: the world after the call is the world
  before it, so that no refresh call was made (the trace is unchanged) and neither the
  in-memory nor the persisted credential was touched.
\<close>

theorem fresh_cached_client_returned:
  assumes "client w = Some c" and "truthy (refresh_token c)"
    and "expiry_date c = Some e"
    and "date_now env (length (trace w)) + 5 * 60 * 1000 < e"
  shows "getAuthenticatedClient env w = (Inr c, w)"
  using assms
  by (simp add: getAuthenticatedClient_def cached_phase_def refresh_if_expiring_def
      isTokenExpiringSoon_def TOKEN_EXPIRY_BUFFER_MS_def)

theorem fresh_cached_client_returned_witness:
  "getAuthenticatedClient sample_env
     (sample_world (Some sample_credentials) (Some sample_credentials))
   = (Inr sample_credentials, sample_world (Some sample_credentials) (Some sample_credentials))"
proof -
  let ?w = "sample_world (Some sample_credentials) (Some sample_credentials)"
  have h1: "client ?w = Some sample_credentials"
    by (simp add: sample_world_simps)
  have h3: "expiry_date sample_credentials = Some 4600000"
    by (simp add: sample_credentials_def)
  have h4: "date_now sample_env (length (trace ?w)) + 5 * 60 * 1000 < 4600000"
    by (simp add: sample_env_simps)
  show ?thesis
    using fresh_cached_client_returned [OF h1 sample_credentials_truthy h3 h4] .
qed

text \<open>
  C9. A cached credential that carries a refresh token but no expiry timestamp is never
  taken as expiring: whatever the clock says, it is returned as it is and the world,
  trace included, is unchanged.
\<close>

theorem no_expiry_never_refreshed:
  assumes "client w = Some c" and "truthy (refresh_token c)" and "expiry_date c = None"
  shows "getAuthenticatedClient env w = (Inr c, w)"
  using assms
  by (simp add: getAuthenticatedClient_def cached_phase_def refresh_if_expiring_def
      isTokenExpiringSoon_def)

theorem no_expiry_never_refreshed_witness:
  "getAuthenticatedClient sample_env
     (sample_world (Some (sample_credentials\<lparr>expiry_date := None\<rparr>)) None)
   = (Inr (sample_credentials\<lparr>expiry_date := None\<rparr>),
      sample_world (Some (sample_credentials\<lparr>expiry_date := None\<rparr>)) None)"
proof -
  let ?c = "sample_credentials\<lparr>expiry_date := None\<rparr>"
  have h1: "client (sample_world (Some ?c) None) = Some ?c"
    by (simp add: sample_world_simps)
  have h2: "truthy (refresh_token ?c)"
    by (simp add: sample_credentials_def truthy_def)
  have h3: "expiry_date ?c = None"
    by simp
  show ?thesis
    using no_expiry_never_refreshed [OF h1 h2 h3] .
qed

subsection \<open>Manual refresh\<close>

text \<open>
  What a successful \<open>refreshToken\<close> leaves behind, on a client whose credential carries a
  non-empty refresh token: the endpoint answered with a success status and a JSON body,
  and the credential in memory and in the store is that body (the endpoint's access
  token, expiry and other fields) with the refresh token of the prior credential written
  over whatever refresh token the body has.
\<close>

lemma refreshToken_success:
  assumes "client w = Some c" and "truthy (refresh_token c)"
    and "refreshToken env w = (Inr (), w')"
  shows "\<exists>rt r newTokens.
           refresh_token c = Some rt
         \<and> endpoint env (length (trace w)) rt = Reply r \<and> ok r
         \<and> body_json r = Some newTokens
         \<and> client w' = Some (newTokens\<lparr>refresh_token := refresh_token c\<rparr>)
         \<and> store w' = Some (newTokens\<lparr>refresh_token := refresh_token c\<rparr>)"
  using assms
  by (auto simp: refreshToken_def refresh_body_def truthy_def saveCredentials_def
      log_event_def Let_def split: option.splits fetch_result.splits if_splits)

text \<open>
  C1. The claim asks that the resulting credential carry the refresh token of the
  endpoint's response when the response contains one. The code does not do so: the
  in-memory credential carries \<open>RT1\<close>, the endpoint returns \<open>RT2\<close>, the call succeeds, the
  new access token and expiry are adopted, and the resulting credential, in memory and
  in the store, still carries \<open>RT1\<close>. The handler of the \<open>'tokens'\<close> event of the same class,
  given the same tokens over the same persisted credential, stores \<open>RT2\<close>.
\<close>

theorem refreshToken_ignores_rotated_refresh_token:
  "fst (refreshToken sample_env (sample_world (Some sample_credentials) None)) = Inr ()
   \<and> endpoint sample_env 0 ''RT1''
       = Reply \<lparr>status = 200, body_text = [], body_json = Some rotated_tokens\<rparr>
   \<and> refresh_token rotated_tokens = Some ''RT2''
   \<and> map_option access_token
       (client (snd (refreshToken sample_env (sample_world (Some sample_credentials) None))))
       = Some (Some ''AT2'')
   \<and> map_option refresh_token
       (client (snd (refreshToken sample_env (sample_world (Some sample_credentials) None))))
       = Some (Some ''RT1'')
   \<and> map_option refresh_token
       (store (snd (refreshToken sample_env (sample_world (Some sample_credentials) None))))
       = Some (Some ''RT1'')
   \<and> map_option refresh_token
       (store (on_tokens sample_env rotated_tokens
                 (sample_world None (Some sample_credentials))))
       = Some (Some ''RT2'')"
  by (simp add: refreshToken_def refresh_body_def on_tokens_def loadCredentials_def
      sample_world_def sample_credentials_def sample_env_simps ok_def rotated_tokens_def
      saveCredentials_def log_event_def truthy_def Let_def)

text \<open>
  C6. On a call of \<open>refreshToken\<close> with a client at hand: when the client's credential has
  no refresh token the call fails with the missing-token error and the world is unchanged,
  trace included, so that the endpoint was not contacted; and whenever the call fails with
  an error that is not a write error of the store (a missing refresh token, a network
  error, a status other than 2xx, a body that is not JSON), the in-memory credential and
  the persisted record are what they were before the call.
\<close>

theorem refreshToken_failure_frame:
  assumes "client w = Some c"
  shows "(\<not> truthy (refresh_token c) \<longrightarrow> refreshToken env w = (Inl NoRefreshToken, w))
       \<and> (\<forall>e w'. refreshToken env w = (Inl e, w') \<longrightarrow> \<not> storage_error e \<longrightarrow>
             client w' = client w \<and> store w' = store w)"
  using assms
  by (auto simp: refreshToken_def refresh_body_def truthy_def saveCredentials_def
      log_event_def storage_error_def Let_def
      split: option.splits fetch_result.splits if_splits)

theorem refreshToken_failure_frame_witness:
  "refreshToken sample_env
     (sample_world (Some (sample_credentials\<lparr>refresh_token := None\<rparr>)) (Some sample_credentials))
     = (Inl NoRefreshToken,
        sample_world (Some (sample_credentials\<lparr>refresh_token := None\<rparr>)) (Some sample_credentials))
   \<and> fst (refreshToken failing_env (sample_world (Some sample_credentials) (Some sample_credentials)))
       = Inl (RefreshFailed 500 ''boom'')
   \<and> client (snd (refreshToken failing_env
                    (sample_world (Some sample_credentials) (Some sample_credentials))))
       = Some sample_credentials
   \<and> store (snd (refreshToken failing_env
                   (sample_world (Some sample_credentials) (Some sample_credentials))))
       = Some sample_credentials"
proof -
  let ?d = "sample_credentials\<lparr>refresh_token := None\<rparr>"
  let ?v = "sample_world (Some ?d) (Some sample_credentials)"
  let ?w = "sample_world (Some sample_credentials) (Some sample_credentials)"
  have a1: "client ?v = Some ?d"
    by (simp add: sample_world_simps)
  have a2: "\<not> truthy (refresh_token ?d)"
    by (simp add: truthy_def)
  have b1: "client ?w = Some sample_credentials"
    by (simp add: sample_world_simps)
  have b2: "refreshToken failing_env ?w
              = (Inl (RefreshFailed 500 ''boom''), snd (refreshToken failing_env ?w))"
    by (simp add: refreshToken_def refresh_body_def sample_world_def sample_credentials_def
        failing_env_def sample_env_def ok_def log_event_def Let_def)
  have b3: "\<not> storage_error (RefreshFailed 500 ''boom'')"
    by (simp add: storage_error_def)
  have A: "refreshToken sample_env ?v = (Inl NoRefreshToken, ?v)"
    using refreshToken_failure_frame [OF a1, of sample_env] a2 by blast
  have B: "client (snd (refreshToken failing_env ?w)) = client ?w
         \<and> store (snd (refreshToken failing_env ?w)) = store ?w"
    using refreshToken_failure_frame [OF b1, of failing_env] b2 b3 by blast
  have C: "fst (refreshToken failing_env ?w) = Inl (RefreshFailed 500 ''boom'')"
    by (metis b2 fst_conv)
  show ?thesis
    using A B C by (simp add: sample_world_simps)
qed

subsection \<open>Sign-out\<close>

text \<open>
  C7. \<open>clearAuth\<close> raises no error, neither on a first nor on a second call in succession,
  and after the two calls the in-memory credential is null and no persisted record
  remains. (The store's \<open>clear\<close> is total and idempotent, as its contract states.)
\<close>

theorem clearAuth_twice:
  "fst (clearAuth w) = Inr ()
   \<and> fst (clearAuth (snd (clearAuth w))) = Inr ()
   \<and> client (snd (clearAuth (snd (clearAuth w)))) = None
   \<and> store (snd (clearAuth (snd (clearAuth w)))) = None
   \<and> url_file (snd (clearAuth (snd (clearAuth w)))) = None"
  by (simp add: clearAuth_def clearCredentials_def log_event_def Let_def)

subsection \<open>The persisted record\<close>

text \<open>
  C4. With no in-memory credential and a persisted credential whose granted scope set does
  not contain every requested scope, \<open>getAuthenticatedClient\<close> loads the record, clears it,
  and is from there on the interactive flow, started on a fresh empty client object in a
  world whose in-memory credential is null and whose persisted record is gone: nothing of
  the under-scoped credential is left for the call to adopt.
\<close>

theorem underscoped_record_cleared:
  assumes "client w = None" and "store w = Some C"
    and "\<not> set (scopes w) \<subseteq> granted_scopes C"
  shows "getAuthenticatedClient env w =
           interactive_flow env empty_credentials (clearCredentials (log_event StoreLoad w))
       \<and> client (clearCredentials (log_event StoreLoad w)) = None
       \<and> store (clearCredentials (log_event StoreLoad w)) = None
       \<and> trace (clearCredentials (log_event StoreLoad w)) = trace w @ [StoreLoad, StoreClear]"
proof -
  have miss:
    "0 < length (filter
       (\<lambda>sc. sc \<notin> set (case scope C of None \<Rightarrow> [] | Some s \<Rightarrow> split_on CHR '' '' s))
       (scopes w))"
    using assms(3) unfolding missing_scopes_conv
    by (simp add: granted_scopes_def split: option.splits)
  have load: "loadCachedCredentials empty_credentials w =
      ((False, empty_credentials), clearCredentials (log_event StoreLoad w))"
    using miss assms(2)
    by (simp add: loadCachedCredentials_def loadCredentials_def Let_def log_event_def)
  have "getAuthenticatedClient env w =
          interactive_flow env empty_credentials (clearCredentials (log_event StoreLoad w))"
    using assms(1)
    by (simp add: getAuthenticatedClient_def cached_phase_def stored_phase_def load)
  then show ?thesis
    using assms(1) by (simp add: clearCredentials_def log_event_def)
qed

theorem underscoped_record_cleared_witness:
  "getAuthenticatedClient sample_env
     ((sample_world None (Some sample_credentials))\<lparr>scopes := [''read'', ''write'']\<rparr>)
   = interactive_flow sample_env empty_credentials
       (clearCredentials (log_event StoreLoad
          ((sample_world None (Some sample_credentials))\<lparr>scopes := [''read'', ''write'']\<rparr>)))
   \<and> store (snd (getAuthenticatedClient sample_env
        ((sample_world None (Some sample_credentials))\<lparr>scopes := [''read'', ''write'']\<rparr>)))
     = None"
proof -
  let ?w = "(sample_world None (Some sample_credentials))\<lparr>scopes := [''read'', ''write'']\<rparr>"
  have h1: "client ?w = None"
    by (simp add: sample_world_def)
  have h2: "store ?w = Some sample_credentials"
    by (simp add: sample_world_def)
  have h3: "\<not> set (scopes ?w) \<subseteq> granted_scopes sample_credentials"
    by (simp add: sample_world_def granted_scopes_def sample_credentials_def)
  have flow: "interactive_flow sample_env empty_credentials (clearCredentials (log_event StoreLoad ?w))
      = (Inl (Timeout (timeout_message (auth_url sample_env [''read'', ''write''] 8080))),
         surface_url sample_env (auth_url sample_env [''read'', ''write''] 8080)
           (log_event AuthWithWeb (clearCredentials (log_event StoreLoad ?w))))"
    using flow_timeout [of "env_with_requests []" 8080 empty_credentials
        "clearCredentials (log_event StoreLoad ?w)"]
    by (simp add: sample_port env_with_requests_simps)
       (simp add: env_with_requests_def sample_env_def clearCredentials_def log_event_def
          sample_world_def)
  show ?thesis
    using underscoped_record_cleared [OF h1 h2 h3, of sample_env]
    by (simp add: flow surface_url_frame) (simp add: clearCredentials_def log_event_def)
qed

subsection \<open>The interactive flow\<close>

text \<open>
  C5. When the port is found, the server listens and no request reaches the listener before
  the timer fires: the interactive flow rejects with the timeout error, whose message
  contains the authorization URL, and leaves the in-memory credential and the persisted
  record as they were; whenever \<open>getAuthenticatedClient\<close> fails, it fails with that error,
  and no effect on the store (save, failed save, clear) follows the start of the flow in
  its trace; and from a world with neither an in-memory nor a persisted credential it
  does fail so.
\<close>

theorem interactive_timeout:
  assumes "getAvailablePort env = Inr p" and "listen_error env = None" and "inbound env = []"
  shows "interactive_flow env creds w =
           (Inl (Timeout (timeout_message (auth_url env (scopes w) p))),
            surface_url env (auth_url env (scopes w) p) (log_event AuthWithWeb w))
     \<and> store (snd (interactive_flow env creds w)) = store w
     \<and> client (snd (interactive_flow env creds w)) = client w
     \<and> sublist (auth_url env (scopes w) p)
         (error_message (Timeout (timeout_message (auth_url env (scopes w) p))))
     \<and> (\<forall>e w'. getAuthenticatedClient env w = (Inl e, w') \<longrightarrow>
           e = Timeout (timeout_message (auth_url env (scopes w) p))
           \<and> (\<exists>pre post. trace w' = pre @ AuthWithWeb # post \<and> filter store_event post = []))
     \<and> (client w = None \<and> store w = None \<longrightarrow>
           fst (getAuthenticatedClient env w) =
             Inl (Timeout (timeout_message (auth_url env (scopes w) p)))
           \<and> store (snd (getAuthenticatedClient env w)) = None)"
proof -
  let ?url = "auth_url env (scopes w) p"
  have flow: "interactive_flow env c v =
           (Inl (Timeout (timeout_message (auth_url env (scopes v) p))),
            surface_url env (auth_url env (scopes v) p) (log_event AuthWithWeb v))" for c v
    using assms by (rule flow_timeout)
  have frame: "store (snd (interactive_flow env creds w)) = store w
      \<and> client (snd (interactive_flow env creds w)) = client w"
    by (simp add: flow surface_url_frame log_event_def)
  have msg: "sublist ?url (error_message (Timeout (timeout_message ?url)))"
    unfolding error_message_def timeout_message_def error.case
    by (rule sublist_append_leftI)
  have gac: "e = Timeout (timeout_message ?url)
           \<and> (\<exists>pre post. trace w' = pre @ AuthWithWeb # post \<and> filter store_event post = [])"
    if h: "getAuthenticatedClient env w = (Inl e, w')" for e w'
  proof -
    from getAuthenticatedClient_cases [of env w] h obtain held w2
      where g: "getAuthenticatedClient env w = interactive_flow env held w2"
        and s: "scopes w2 = scopes w"
      by auto
    have e: "e = Timeout (timeout_message ?url)"
      and w': "w' = surface_url env (auth_url env (scopes w2) p) (log_event AuthWithWeb w2)"
      using g h flow [of held w2] s by simp_all
    obtain evs where evs: "trace w' = trace (log_event AuthWithWeb w2) @ evs"
        "filter store_event evs = []"
      using surface_url_trace w' by blast
    have "trace w' = trace w2 @ AuthWithWeb # evs"
      using evs(1) by (simp add: log_event_def)
    then show ?thesis using e evs(2) by blast
  qed
  have fresh: "fst (getAuthenticatedClient env w) = Inl (Timeout (timeout_message ?url))
           \<and> store (snd (getAuthenticatedClient env w)) = None"
    if "client w = None \<and> store w = None"
    using that
    by (simp add: getAuthenticatedClient_fresh flow log_event_def surface_url_frame)
  show ?thesis using flow frame msg gac fresh by blast
qed

theorem interactive_timeout_witness:
  "fst (getAuthenticatedClient (env_with_requests []) (sample_world None None))
     = Inl (Timeout (timeout_message (auth_url (env_with_requests []) [''read''] 8080)))
   \<and> store (snd (getAuthenticatedClient (env_with_requests []) (sample_world None None)))
     = None"
proof -
  have h7: "client (sample_world None None) = None \<and> store (sample_world None None) = None"
    by (simp add: sample_world_simps)
  show ?thesis
    using interactive_timeout [OF sample_port env_with_requests_simps(1)
        env_with_requests_simps(2), of empty_credentials "sample_world None None"] h7
    by (simp add: sample_world_simps)
qed

text \<open>
  C2. Whenever the handler runs on a request to the callback path whose URL parses and
  whose state parameter does not carry the flow's CSRF token (it is missing, or it
  neither equals the token nor decodes to a JSON object whose \<open>csrf\<close> field equals it), in
  whatever state the listener is: the handler answers with the mismatch text and rejects
  the completion signal with the CSRF error, and it does not touch the credentials of the
  client object, whatever tokens the request carries. A signal that was pending is
  thereby rejected with the CSRF error, and stays so whatever requests follow; a signal
  that an earlier request had settled keeps its settlement.
\<close>

theorem csrf_mismatch_rejected:
  assumes "prefix ''/oauth2callback'' u"
    and "searchParams env u (base_url L) = Some qs"
    and "\<not> state_carries_csrf env (csrfToken L) (qs_get qs ''state'')"
  shows "handle_request env (Some u) L
           = settle (Rejected CsrfMismatch) (res_end ''State mismatch. Possible CSRF attack.'' L)
       \<and> oauth (requestListener env (Some u) L) = oauth L
       \<and> \<not> listening (requestListener env (Some u) L)
       \<and> (signal L = None \<longrightarrow>
            signal (requestListener env (Some u) L) = Some (Rejected CsrfMismatch))
       \<and> (signal L = None \<longrightarrow>
            (\<forall>rest. signal (serve env (Some u # rest) L) = Some (Rejected CsrfMismatch)))
       \<and> (\<forall>s. signal L = Some s \<longrightarrow> signal (requestListener env (Some u) L) = Some s)"
proof -
  have invalid: "\<not> csrf_valid env (csrfToken L) (qs_get qs ''state'')"
    using assms(3) csrf_valid_carries by blast
  have run: "handle_request env (Some u) M
      = settle (Rejected CsrfMismatch) (res_end ''State mismatch. Possible CSRF attack.'' M)"
    if "base_url M = base_url L" and "csrfToken M = csrfToken L" for M
    using assms(1,2) invalid that by (simp add: handle_request_def)
  have kept: "oauth (requestListener env (Some u) L) = oauth L"
    by (simp add: requestListener_def run settle_fields res_end_def)
  have closed: "\<not> listening (requestListener env (Some u) L)"
    by (simp add: requestListener_def)
  have rejected: "signal (requestListener env (Some u) M) = Some (Rejected CsrfMismatch)"
    if "signal M = None" and "base_url M = base_url L" and "csrfToken M = csrfToken L" for M
    using that by (simp add: requestListener_def run settle_signal res_end_def)
  have for_good: "signal (serve env (Some u # rest) L) = Some (Rejected CsrfMismatch)"
    if "signal L = None" for rest
  proof -
    have "signal (dispatch env (Some u) L) = Some (Rejected CsrfMismatch)"
      using that by (simp add: dispatch_def rejected)
    then show ?thesis
      by (simp add: serve_Cons serve_signal_kept)
  qed
  have settled: "signal (requestListener env (Some u) L) = Some s" if "signal L = Some s" for s
    using that by (simp add: requestListener_def handle_request_signal_kept)
  show ?thesis
    using run [of L] kept closed rejected [of L] for_good settled by simp
qed

theorem csrf_mismatch_rejected_witness:
  "signal (requestListener sample_env (Some forged_url)
       (new_listener sample_env 8080 empty_credentials)) = Some (Rejected CsrfMismatch)
   \<and> oauth (requestListener sample_env (Some forged_url)
       (new_listener sample_env 8080 empty_credentials)) = empty_credentials
   \<and> signal (serve sample_env [Some forged_url, Some granted_url]
       (new_listener sample_env 8080 empty_credentials)) = Some (Rejected CsrfMismatch)"
proof -
  let ?K = "new_listener sample_env 8080 empty_credentials"
  have K: "signal ?K = None" "oauth ?K = empty_credentials"
    "csrfToken ?K = sample_token"
    by (simp_all add: new_listener_def sample_env_simps Let_def)
  have h1: "prefix ''/oauth2callback'' forged_url"
    by (simp add: forged_url_def)
  have h2: "searchParams sample_env forged_url (base_url ?K) = Some (sample_query forged_url)"
    by (simp add: sample_env_simps)
  have d: "decode_state sample_env ''forged'' = None"
    by (simp add: sample_env_def)
  have h3: "\<not> state_carries_csrf sample_env (csrfToken ?K)
                (qs_get (sample_query forged_url) ''state'')"
    by (simp add: K d state_carries_csrf_def sample_query_def qs_get_def sample_token_def)
  show ?thesis
    using csrf_mismatch_rejected [OF h1 h2 h3] K by simp
qed

text \<open>
  What holds of every run of the handler, in whatever state the listener is: it closes
  the server, it leaves the completion signal settled, and a signal that was settled
  before keeps its settlement, over any sequence of requests.
\<close>

lemma handler_closes_and_settles_once:
  "\<not> listening (requestListener env r L)
   \<and> signal (requestListener env r L) \<noteq> None
   \<and> (\<forall>s. signal L = Some s \<longrightarrow> signal (requestListener env r L) = Some s)
   \<and> (\<forall>s reqs. signal L = Some s \<longrightarrow> signal (serve env reqs L) = Some s)"
  by (simp add: requestListener_def handle_request_settles handle_request_signal_kept
      serve_signal_kept)

text \<open>
  C8. The claim asks that no second request be processed by a listener once the first
  has been handled. Nothing in the handler sees to that. A first request with the flow's
  state and the tokens \<open>AT3\<close>, \<open>RT3\<close> resolves the completion signal and closes the server;
  a second request with the flow's state and the tokens \<open>AT4\<close>, \<open>RT4\<close>, reaching the handler
  on the connection of the first, is processed as well: the handler has run twice, the
  signal is still resolved, and the client object now holds \<open>AT4\<close>, \<open>RT4\<close>.
\<close>

theorem second_request_is_processed:
  "signal (serve sample_env [Some granted_url]
       (new_listener sample_env 8080 empty_credentials)) = Some Resolved
   \<and> listening (serve sample_env [Some granted_url]
       (new_listener sample_env 8080 empty_credentials)) = False
   \<and> access_token (oauth (serve sample_env [Some granted_url]
       (new_listener sample_env 8080 empty_credentials))) = Some ''AT3''
   \<and> served (serve sample_env [Some granted_url, Some regranted_url]
       (new_listener sample_env 8080 empty_credentials)) = 2
   \<and> signal (serve sample_env [Some granted_url, Some regranted_url]
       (new_listener sample_env 8080 empty_credentials)) = Some Resolved
   \<and> access_token (oauth (serve sample_env [Some granted_url, Some regranted_url]
       (new_listener sample_env 8080 empty_credentials))) = Some ''AT4''
   \<and> refresh_token (oauth (serve sample_env [Some granted_url, Some regranted_url]
       (new_listener sample_env 8080 empty_credentials))) = Some ''RT4''"
proof -
  let ?K = "new_listener sample_env 8080 empty_credentials"
  have valid: "csrf_valid sample_env sample_token (Some (''b64:'' @ sample_token))"
    by (simp add: csrf_valid_def sample_env_def csrf_field_equals_def sample_token_def)
  have q1: "sample_query granted_url =
      [(''state'', ''b64:'' @ sample_token), (''access_token'', ''AT3''),
       (''refresh_token'', ''RT3''), (''scope'', ''read''), (''expiry_date'', ''4600000'')]"
    by (simp add: sample_query_def granted_url_def forged_url_def)
  have q2: "sample_query regranted_url =
      [(''state'', ''b64:'' @ sample_token), (''access_token'', ''AT4''),
       (''refresh_token'', ''RT4''), (''scope'', ''read''), (''expiry_date'', ''4700000'')]"
    by (simp add: sample_query_def regranted_url_def granted_url_def forged_url_def)
  have p1: "prefix ''/oauth2callback'' granted_url" "prefix ''/oauth2callback'' regranted_url"
    by (simp_all add: granted_url_def regranted_url_def)
  have K: "csrfToken ?K = sample_token" "signal ?K = None" "served ?K = 0"
    by (simp_all add: new_listener_def sample_env_simps Let_def)
  show ?thesis
    using valid p1 K
    by (simp add: serve_def dispatch_def requestListener_def handle_request_def
        sample_env_simps q1 q2 qs_get_def or_undefined_def truthy_def adopt_tokens_def
        settle_def res_end_def)
qed

subsection \<open>Manual refresh without a client\<close>

text \<open>
  C10. On a call of \<open>refreshToken\<close> with no in-memory client, the whole of
  \<open>getAuthenticatedClient\<close> runs first: when it fails, \<open>refreshToken\<close> fails with the same
  error in the same world, and its own refresh request is never sent; when it returns a
  credential, \<open>refreshToken\<close> goes on with that credential; every effect of
  \<open>getAuthenticatedClient\<close> precedes those of the refresh that follows. With no persisted
  record either, the call begins by reading the store and starting the interactive flow;
  and when that flow times out, the call fails with the timeout error and has sent no
  request to the refresh endpoint at all.
\<close>

theorem refreshToken_without_client:
  assumes "client w = None"
  shows "(\<forall>e w1. getAuthenticatedClient env w = (Inl e, w1) \<longrightarrow>
            refreshToken env w = (Inl e, w1))
     \<and> (\<forall>c w1. getAuthenticatedClient env w = (Inr c, w1) \<longrightarrow>
           refreshToken env w = refresh_body env c (w1\<lparr>client := Some c\<rparr>))
     \<and> prefix (trace (snd (getAuthenticatedClient env w))) (trace (snd (refreshToken env w)))
     \<and> (store w = None \<longrightarrow>
           prefix (trace w @ [StoreLoad, AuthWithWeb]) (trace (snd (refreshToken env w))))
     \<and> (store w = None \<and> getAvailablePort env = Inr p \<and> listen_error env = None
          \<and> inbound env = [] \<longrightarrow>
           fst (refreshToken env w)
             = Inl (Timeout (timeout_message (auth_url env (scopes w) p)))
           \<and> filter fetch_event (trace (snd (refreshToken env w)))
             = filter fetch_event (trace w))"
proof -
  have fail: "refreshToken env w = (Inl e, w1)"
    if "getAuthenticatedClient env w = (Inl e, w1)" for e w1
    using that assms by (simp add: refreshToken_def)
  have succ: "refreshToken env w = refresh_body env c (w1\<lparr>client := Some c\<rparr>)"
    if "getAuthenticatedClient env w = (Inr c, w1)" for c w1
    using that assms by (simp add: refreshToken_def)
  have pre: "prefix (trace (snd (getAuthenticatedClient env w)))
               (trace (snd (refreshToken env w)))"
  proof (cases "getAuthenticatedClient env w")
    case (Pair r w1)
    show ?thesis
    proof (cases r)
      case (Inl e)
      then show ?thesis using Pair fail by simp
    next
      case (Inr c)
      then show ?thesis
        using Pair succ [of c w1] prefix_refresh_body [of "w1\<lparr>client := Some c\<rparr>" env c]
        by simp
    qed
  qed
  have started: "prefix (trace w @ [StoreLoad, AuthWithWeb]) (trace (snd (refreshToken env w)))"
    if "store w = None"
  proof -
    have "prefix (trace w @ [StoreLoad, AuthWithWeb])
            (trace (snd (getAuthenticatedClient env w)))"
      using prefix_interactive_flow [of "log_event StoreLoad w" env empty_credentials]
        assms that
      by (simp add: getAuthenticatedClient_fresh log_event_def)
    then show ?thesis using pre by (rule prefix_order.trans)
  qed
  have timed:
    "fst (refreshToken env w) = Inl (Timeout (timeout_message (auth_url env (scopes w) p)))
     \<and> filter fetch_event (trace (snd (refreshToken env w))) = filter fetch_event (trace w)"
    if "store w = None \<and> getAvailablePort env = Inr p \<and> listen_error env = None
        \<and> inbound env = []"
  proof -
    have "getAuthenticatedClient env w =
       (Inl (Timeout (timeout_message (auth_url env (scopes w) p))),
        surface_url env (auth_url env (scopes w) p)
          (log_event AuthWithWeb (log_event StoreLoad w)))"
      using that assms by (simp add: getAuthenticatedClient_fresh flow_timeout log_event_def)
    then show ?thesis
      using fail by (simp add: surface_url_no_fetch log_event_def fetch_event_def)
  qed
  show ?thesis using fail succ pre started timed by blast
qed

theorem refreshToken_without_client_witness:
  "fst (refreshToken (env_with_requests []) (sample_world None None))
     = Inl (Timeout (timeout_message (auth_url (env_with_requests []) [''read''] 8080)))
   \<and> filter fetch_event (trace (snd (refreshToken (env_with_requests []) (sample_world None None))))
     = []
   \<and> prefix [StoreLoad, AuthWithWeb]
       (trace (snd (refreshToken (env_with_requests []) (sample_world None None))))"
proof -
  have h1: "client (sample_world None None) = None"
    by (simp add: sample_world_simps)
  have h2: "store (sample_world None None) = None \<and> getAvailablePort (env_with_requests []) = Inr 8080
      \<and> listen_error (env_with_requests []) = None \<and> inbound (env_with_requests []) = []"
    by (simp add: sample_world_simps sample_port env_with_requests_simps)
  show ?thesis
    using refreshToken_without_client [OF h1, of "env_with_requests []" 8080] h2
    by (simp add: sample_world_simps)
qed

subsection \<open>The scenarios of the specification\<close>

text \<open>
  Fresh install, empty store: a callback with the flow's token in its state and the tokens
  \<open>AT3\<close>, \<open>RT3\<close> makes \<open>getAuthenticatedClient\<close> return that credential, which is then both
  the in-memory and the persisted one.
\<close>

lemma fresh_install_scenario:
  "fst (getAuthenticatedClient (env_with_requests [Some granted_url]) (sample_world None None))
     = Inr \<lparr>access_token = Some ''AT3'', refresh_token = Some ''RT3'', scope = Some ''read'',
            token_type = None, id_token = None, expiry_date = Some 4600000\<rparr>
   \<and> store (snd (getAuthenticatedClient (env_with_requests [Some granted_url])
                   (sample_world None None)))
     = Some \<lparr>access_token = Some ''AT3'', refresh_token = Some ''RT3'', scope = Some ''read'',
             token_type = None, id_token = None, expiry_date = Some 4600000\<rparr>
   \<and> client (snd (getAuthenticatedClient (env_with_requests [Some granted_url])
                    (sample_world None None)))
     = Some \<lparr>access_token = Some ''AT3'', refresh_token = Some ''RT3'', scope = Some ''read'',
             token_type = None, id_token = None, expiry_date = Some 4600000\<rparr>"
proof -
  let ?env = "env_with_requests [Some granted_url]"
  let ?K = "new_listener ?env 8080 empty_credentials"
  have K: "listening ?K" "signal ?K = None" "csrfToken ?K = sample_token"
    by (simp_all add: new_listener_def env_with_requests_simps Let_def)
  have valid: "csrf_valid ?env sample_token (Some (''b64:'' @ sample_token))"
    by (simp add: csrf_valid_def env_with_requests_def sample_env_def csrf_field_equals_def
        sample_token_def)
  have exp: "parseInt ''4600000'' = Some 4600000"
    by (simp add: parseInt_def is_space_def is_digit_def digits_value_def Let_def)
  have run: "serve ?env [Some granted_url] ?K =
      ?K\<lparr>listening := False, signal := Some Resolved,
          oauth := \<lparr>access_token = Some ''AT3'', refresh_token = Some ''RT3'',
                    scope = Some ''read'', token_type = None, id_token = None,
                    expiry_date = Some 4600000\<rparr>,
          served := 1,
          replies := [''Authentication successful! Please return to the console.'']\<rparr>"
    using K valid exp
    by (simp add: serve_def dispatch_def requestListener_def handle_request_def
        env_with_requests_simps sample_query_def qs_get_def or_undefined_def truthy_def
        adopt_tokens_def settle_def res_end_def)
       (simp add: granted_url_def forged_url_def new_listener_def Let_def
        env_with_requests_simps)
  show ?thesis
    by (simp add: getAuthenticatedClient_fresh interactive_flow_def authWithWeb_def
        sample_port env_with_requests_simps run Let_def saveCredentials_def log_event_def
        sample_world_simps)
qed

text \<open>
  A persisted credential that has already expired, with a valid refresh token: the
  credential returned carries the endpoint's access token and the original refresh token.
\<close>

lemma expired_record_scenario:
  "fst (getAuthenticatedClient sample_env
          (sample_world None (Some (sample_credentials\<lparr>expiry_date := Some 999000\<rparr>))))
     = Inr (rotated_tokens\<lparr>refresh_token := Some ''RT1''\<rparr>)
   \<and> store (snd (getAuthenticatedClient sample_env
          (sample_world None (Some (sample_credentials\<lparr>expiry_date := Some 999000\<rparr>)))))
     = Some (rotated_tokens\<lparr>refresh_token := Some ''RT1''\<rparr>)"
  by (simp add: getAuthenticatedClient_def cached_phase_def stored_phase_def
      loadCachedCredentials_def loadCredentials_def refresh_if_expiring_def
      isTokenExpiringSoon_def TOKEN_EXPIRY_BUFFER_MS_def refresh_body_def
      saveCredentials_def log_event_def sample_world_def sample_credentials_def
      sample_env_simps ok_def Let_def)

end
